theory Spec2Isabelle
  imports Complex_Main "HOL-Library.AList" "HOL-Library.Word"
begin

section \<open>Numbers\<close>

text \<open>
  The adapter is TypeScript, and its numbers are doubles.  Handles, sequence numbers,
  line and column numbers only ever hold integers; they are modelled as mathematical
  integers (\<^typ>\<open>int\<close>), which is exact for the integers of magnitude up to \<open>2^53\<close>:
  all of these are doubles, and adding or subtracting 1 is exact among them.
\<close>

text \<open>
  \<^verbatim>\<open>x++\<close> on a counter that holds an integer: the double nearest to \<open>x + 1\<close>, a tie
  going to the double with the even significand.  From \<open>-2^53\<close> up to \<open>2^53 - 1\<close> that
  is \<open>x + 1\<close>.  From \<open>2^53\<close> on the doubles are the even integers, and from \<open>2^54\<close> on
  the multiples of 4 (the same below zero): at \<open>2^53\<close> the counter stays where it is,
  up to \<open>2^54\<close> it stays or moves by 2, and beyond it stays.
\<close>

definition increment :: "int \<Rightarrow> int" where
  "increment x =
     (if - (2 ^ 53) \<le> x \<and> x < 2 ^ 53 then x + 1
      else if \<bar>x\<bar> < 2 ^ 54 then (if even (x div 2) then x else x + 2)
      else x)"

text \<open>
  The number that a runtime variable holds is any double: a finite one, which is a
  rational (both zeros are \<open>Finite 0\<close>; they are rendered alike), an infinity or
  \<^verbatim>\<open>NaN\<close>.
\<close>

datatype js_number = Finite rat | PosInfinity | NegInfinity | NaN

section \<open>The handle table (class \<^verbatim>\<open>Handles<T>\<close>)\<close>

text \<open>
  \<^verbatim>\<open>private startHandle = 1000;\<close> is a field with an initialiser that no method
  assigns, so it is a constant of the class.  The table itself is the counter
  \<^verbatim>\<open>_nextHandle\<close> and the map \<^verbatim>\<open>_handleMap\<close>.  The counter is an integer: a
  table constructed with a fraction, an infinity or \<^verbatim>\<open>NaN\<close> as start base is not
  represented.
\<close>

definition startHandle :: int where
  "startHandle = 1000"

record 'a Handles =
  nextHandle :: int
  handleMap :: "int \<rightharpoonup> 'a"

text \<open>
  The constructor: \<^verbatim>\<open>typeof startHandle === 'number' ? startHandle : this.startHandle\<close>.
  The optional argument is an option.
\<close>

definition Handles_new :: "int option \<Rightarrow> 'a Handles" where
  "Handles_new start =
     \<lparr>nextHandle = (case start of Some n \<Rightarrow> n | None \<Rightarrow> startHandle),
      handleMap = Map.empty\<rparr>"


text \<open>
  \<^verbatim>\<open>create\<close> (\<^verbatim>\<open>var handle = this._nextHandle++\<close>) returns the handle and the
  updated table.
\<close>

definition Handles_create :: "'a \<Rightarrow> 'a Handles \<Rightarrow> int \<times> 'a Handles" where
  "Handles_create v t =
     (let handle = nextHandle t
      in (handle, t\<lparr>nextHandle := increment handle,
                     handleMap := (handleMap t)(handle \<mapsto> v)\<rparr>))"

text \<open>
  \<^verbatim>\<open>get\<close> is \<^verbatim>\<open>this._handleMap.get(handle) || defaultValue\<close>: the default is
  returned when the handle is unbound and also when the bound value is falsy.  The
  element type is generic, so which of its values are truthy is a parameter.  The
  optional default and the result are options (\<open>None\<close> is \<^verbatim>\<open>undefined\<close>).
\<close>

definition Handles_get :: "('a \<Rightarrow> bool) \<Rightarrow> int \<Rightarrow> 'a option \<Rightarrow> 'a Handles \<Rightarrow> 'a option" where
  "Handles_get truthy handle defaultValue t =
     (case handleMap t handle of
        Some v \<Rightarrow> if truthy v then Some v else defaultValue
      | None \<Rightarrow> defaultValue)"







section \<open>Protocol messages\<close>

text \<open>
  Bodies and arguments are JSON values.  An object is an association list in property
  order; assigning a property keeps the position of a property that exists and appends
  a new one (\<^const>\<open>AList.update\<close>).
\<close>

datatype json =
    JNull
  | JBool bool
  | JNum int
  | JStr string
  | JArr "json list"
  | JObj "(string \<times> json) list"

datatype js_error = TypeError

text \<open>
  Reading a property of \<^verbatim>\<open>request.arguments\<close> (declared \<^verbatim>\<open>arguments?: any\<close>):
  on \<^verbatim>\<open>undefined\<close> (\<open>None\<close>) and on \<^verbatim>\<open>null\<close> the read throws a TypeError, on an
  object it is the property or \<^verbatim>\<open>undefined\<close>, and on any other value it is
  \<^verbatim>\<open>undefined\<close> (none of the properties the adapter reads exists on a string, an
  array, a number or a boolean).
\<close>

definition get_property :: "json option \<Rightarrow> string \<Rightarrow> js_error + json option" where
  "get_property obj k =
     (case obj of
        None \<Rightarrow> Inl TypeError
      | Some JNull \<Rightarrow> Inl TypeError
      | Some (JObj kvs) \<Rightarrow> Inr (map_of kvs k)
      | Some _ \<Rightarrow> Inr None)"

text \<open>
  \<^verbatim>\<open>class Message\<close> and \<^verbatim>\<open>class Response extends Message\<close> of the source; the
  request and the event are the interfaces of the protocol library, which extend the
  same \<^verbatim>\<open>ProtocolMessage\<close>.  A field name can belong to one record only, so the
  request's \<^verbatim>\<open>command\<close> and the event's \<^verbatim>\<open>body\<close> carry a prefix.
\<close>

record Message =
  seq :: int
  type :: string

record Request = Message +
  request_command :: string
  arguments :: "json option"

record Response = Message +
  request_seq :: int
  success :: bool
  command :: string
  message :: "string option"
  body :: "(string \<times> json) list option"

record Event = Message +
  event :: string
  event_body :: "(string \<times> json) list option"

datatype ProtocolMessage = ResponseMessage Response | EventMessage Event

text \<open>
  \<^verbatim>\<open>new Response(request, message?)\<close>: \<^verbatim>\<open>super('response')\<close> sets \<^verbatim>\<open>seq\<close> to 0;
  a truthy (non-empty) message makes the response unsuccessful.
\<close>

definition Response_new :: "Request \<Rightarrow> string option \<Rightarrow> Response" where
  "Response_new request msg =
     (let truthy_message = (case msg of None \<Rightarrow> False | Some m \<Rightarrow> m \<noteq> [])
      in \<lparr>seq = 0, type = ''response'',
          request_seq = seq request,
          success = \<not> truthy_message,
          command = request_command request,
          message = (if truthy_message then msg else None),
          body = None\<rparr>)"

section \<open>Runtime variables and the objects they live in\<close>

text \<open>
  A \<^verbatim>\<open>RuntimeVariable\<close> is a mutable object that the adapter, the handle table and
  the arrays of other variables share by reference.  Objects live in a heap (a list) and
  are named by their index.  The
  strings are sequences of 8-bit characters, the UTF-8 form of the text, so
  \<^verbatim>\<open>TextEncoder.encode\<close> yields the characters' codes.
\<close>

datatype IRuntimeVariableType =
    Number js_number
  | Boolean bool
  | String string
  | Array "nat list"

record RuntimeVariable =
  name :: string
  private_value :: IRuntimeVariableType
  reference :: "int option"
  private_memory :: "8 word list option"

definition RuntimeVariable_new :: "string \<Rightarrow> IRuntimeVariableType \<Rightarrow> RuntimeVariable" where
  "RuntimeVariable_new n v = \<lparr>name = n, private_value = v, reference = None, private_memory = None\<rparr>"

definition TextEncoder_encode :: "string \<Rightarrow> 8 word list" where
  "TextEncoder_encode s = map of_char s"

text \<open>
  The getter \<^verbatim>\<open>memory\<close> fills the cache \<^verbatim>\<open>_memory\<close> for a string value and
  returns the cache; it returns the value and the updated object.
\<close>

definition RuntimeVariable_memory :: "RuntimeVariable \<Rightarrow> 8 word list option \<times> RuntimeVariable" where
  "RuntimeVariable_memory v =
     (case (private_memory v, private_value v) of
        (None, String s) \<Rightarrow>
          (Some (TextEncoder_encode s), v\<lparr>private_memory := Some (TextEncoder_encode s)\<rparr>)
      | _ \<Rightarrow> (private_memory v, v))"

text \<open>What a handle of the adapter is bound to: \<^verbatim>\<open>'locals' | 'globals' | RuntimeVariable\<close>.\<close>

datatype handle_target = Locals | Globals | Variable nat

section \<open>The adapter (class \<^verbatim>\<open>DebugProtocolAdapter\<close>)\<close>

text \<open>
  What the source writes to the console, as data: \<^verbatim>\<open>_send\<close> logs every message it
  fires, \<^verbatim>\<open>fire\<close> warns when no listener is set, \<^verbatim>\<open>sendResponse\<close> and
  \<^verbatim>\<open>dispatchRequest\<close> log their errors with the command.
\<close>

datatype console_entry =
    Log_SettingListener
  | Info_Firing ProtocolMessage
  | Warn_NoListener
  | Error_MoreThanOneResponse string
  | Error_UnknownRequest string

text \<open>
  The state of an adapter.  The emitter \<^verbatim>\<open>_sendMessage\<close> holds at most one listener;
  the listener is the transport, outside the repository, and \<open>transport\<close> lists the
  messages it was called with, in order (\<^verbatim>\<open>fire\<close> catches what a listener throws, so a
  listener cannot change what the adapter does next; the model's listener only receives).  \<open>immediate\<close> is the queue of callbacks that
  \<^verbatim>\<open>setImmediate\<close> holds for this adapter: each is \<^verbatim>\<open>() => this._send('event', event)\<close>
  and is represented by its event.  \<open>pendingRequests\<close> maps a sequence number to the
  name of a continuation, \<open>resolved\<close> lists the continuations called.
\<close>

record DebugProtocolAdapter =
  listener :: bool
  transport :: "ProtocolMessage list"
  console :: "console_entry list"
  immediate :: "Event list"
  pendingRequests :: "int \<rightharpoonup> nat"
  resolved :: "(nat \<times> Response) list"
  debuggerLinesStartAt1 :: bool
  clientColumnsStartAt1 :: bool
  debuggerColumnsStartAt1 :: bool
  clientLinesStartAt1 :: bool
  addressesInHex :: bool
  valuesInHex :: bool
  variableHandles :: "handle_target Handles"
  heap :: "RuntimeVariable list"

text \<open>
  What the source imports from outside the repository and the model takes as a
  parameter: the two bit masks of the enumeration \<^verbatim>\<open>ErrorDestination\<close> (as the 32-bit
  integers that \<^verbatim>\<open>&\<close> works on), \<^verbatim>\<open>basename\<close>, and the text that
  \<^verbatim>\<open>Number.prototype.toString\<close> gives, in a radix, a finite number that is not an
  integer of magnitude below \<open>2^53\<close> (the shortest digits that read back as the double,
  in exponent form from \<open>10^21\<close> on).
\<close>

record externals =
  ErrorDestination_User :: "32 word"
  ErrorDestination_Telemetry :: "32 word"
  basename :: "string \<Rightarrow> string"
  Number_toString :: "rat \<Rightarrow> nat \<Rightarrow> string"

definition DebugProtocolAdapter_new :: "bool option \<Rightarrow> DebugProtocolAdapter" where
  "DebugProtocolAdapter_new obsolete_debuggerLinesAndColumnsStartAt1 =
     (let linesAndColumnsStartAt1 =
        (case obsolete_debuggerLinesAndColumnsStartAt1 of Some b \<Rightarrow> b | None \<Rightarrow> False)
      in \<lparr>listener = False, transport = [], console = [], immediate = [],
          pendingRequests = Map.empty, resolved = [],
          debuggerLinesStartAt1 = linesAndColumnsStartAt1,
          clientColumnsStartAt1 = True,
          debuggerColumnsStartAt1 = linesAndColumnsStartAt1,
          clientLinesStartAt1 = True,
          addressesInHex = True,
          valuesInHex = False,
          variableHandles = Handles_new None,
          heap = []\<rparr>)"

text \<open>Subscribing to \<^verbatim>\<open>onDidSendMessage\<close> sets the listener, replacing any other.\<close>

definition onDidSendMessage :: "DebugProtocolAdapter \<Rightarrow> DebugProtocolAdapter" where
  "onDidSendMessage s = s\<lparr>listener := True, console := console s @ [Log_SettingListener]\<rparr>"

text \<open>\<^verbatim>\<open>Emitter.fire\<close>: call the listener, or warn that there is none.\<close>

definition fire :: "ProtocolMessage \<Rightarrow> DebugProtocolAdapter \<Rightarrow> DebugProtocolAdapter" where
  "fire e s =
     (if listener s then s\<lparr>transport := transport s @ [e]\<rparr>
      else s\<lparr>console := console s @ [Warn_NoListener]\<rparr>)"

text \<open>
  \<^verbatim>\<open>_send(typ, message)\<close> sets the type of the message, logs it and fires it.  It
  assigns nothing to \<^verbatim>\<open>message.seq\<close>.
\<close>

fun set_type :: "string \<Rightarrow> ProtocolMessage \<Rightarrow> ProtocolMessage" where
  "set_type typ (ResponseMessage r) = ResponseMessage (r\<lparr>type := typ\<rparr>)"
| "set_type typ (EventMessage e) = EventMessage (e\<lparr>type := typ\<rparr>)"

definition private_send :: "string \<Rightarrow> ProtocolMessage \<Rightarrow> DebugProtocolAdapter \<Rightarrow> DebugProtocolAdapter" where
  "private_send typ m s =
     (let m' = set_type typ m
      in fire m' (s\<lparr>console := console s @ [Info_Firing m']\<rparr>))"

text \<open>\<^verbatim>\<open>sendResponse\<close> returns the response object as it leaves it, and the adapter.\<close>

definition sendResponse :: "Response \<Rightarrow> DebugProtocolAdapter \<Rightarrow> Response \<times> DebugProtocolAdapter" where
  "sendResponse response s =
     (if seq response > 0
      then (response, s\<lparr>console := console s @ [Error_MoreThanOneResponse (command response)]\<rparr>)
      else (let r = response\<lparr>type := ''response''\<rparr>
            in (r, private_send ''response'' (ResponseMessage r) s)))"

text \<open>\<^verbatim>\<open>sendEvent\<close> only schedules the send: \<^verbatim>\<open>setImmediate(() => { this._send('event', event); })\<close>.\<close>

definition sendEvent :: "Event \<Rightarrow> DebugProtocolAdapter \<Rightarrow> DebugProtocolAdapter" where
  "sendEvent e s = s\<lparr>immediate := immediate s @ [e]\<rparr>"

text \<open>
  The event loop runs the scheduled callbacks, oldest first, once the code that
  scheduled them has returned.  A callback schedules nothing, so one pass empties the
  queue.
\<close>

fun run_callbacks :: "Event list \<Rightarrow> DebugProtocolAdapter \<Rightarrow> DebugProtocolAdapter" where
  "run_callbacks [] s = s"
| "run_callbacks (e # es) s = run_callbacks es (private_send ''event'' (EventMessage e) s)"

definition run_immediate :: "DebugProtocolAdapter \<Rightarrow> DebugProtocolAdapter" where
  "run_immediate s = run_callbacks (immediate s) (s\<lparr>immediate := []\<rparr>)"

section \<open>Numbers as text\<close>

text \<open>
  \<^verbatim>\<open>x.toString(radix)\<close> and \<^verbatim>\<open>String(x)\<close> for an integer \<open>x\<close> of magnitude
  below \<open>2^53\<close>: the digits in the radix, lower case, after a minus sign for a
  negative number.  The source uses the radices 10 and 16; the model has digits for the
  radices 2 to 16.
\<close>

definition digit_char :: "nat \<Rightarrow> char" where
  "digit_char d = ''0123456789abcdef'' ! d"

function digits :: "nat \<Rightarrow> nat \<Rightarrow> string" where
  "digits radix n =
     (if radix < 2 \<or> 16 < radix then []
      else if n < radix then [digit_char n]
      else digits radix (n div radix) @ [digit_char (n mod radix)])"
  by pat_completeness auto
termination
  by (relation "measure (\<lambda>(radix, n). n)") auto

declare digits.simps [simp del]

definition int_toString :: "nat \<Rightarrow> int \<Rightarrow> string" where
  "int_toString radix x =
     (if x < 0 then CHR ''-'' # digits radix (nat (- x)) else digits radix (nat x))"

text \<open>
  \<^verbatim>\<open>x.toString(radix)\<close> for any integer-valued finite number: the digits below
  \<open>2^53\<close>, the library's text from there on.
\<close>

definition integer_toString :: "externals \<Rightarrow> nat \<Rightarrow> int \<Rightarrow> string" where
  "integer_toString X radix x =
     (if \<bar>x\<bar> < 2 ^ 53 then int_toString radix x else Number_toString X (of_int x) radix)"

text \<open>
  \<^verbatim>\<open>Math.round(v) === v\<close>.  For a finite number both roundings are
  \<open>\<lfloor>x + 1/2\<rfloor>\<close>; \<^verbatim>\<open>Math.round\<close> returns an infinity as it is, and \<^verbatim>\<open>NaN\<close> is
  equal to nothing.
\<close>

definition Math_round_same :: "js_number \<Rightarrow> bool" where
  "Math_round_same v =
     (case v of
        Finite x \<Rightarrow> of_int (round x) = x
      | PosInfinity \<Rightarrow> True
      | NegInfinity \<Rightarrow> True
      | NaN \<Rightarrow> False)"

text \<open>\<^verbatim>\<open>v.toString(radix)\<close> for any number.\<close>

definition toString :: "externals \<Rightarrow> nat \<Rightarrow> js_number \<Rightarrow> string" where
  "toString X radix v =
     (case v of
        Finite x \<Rightarrow>
          if of_int (round x) = x then integer_toString X radix (round x)
          else Number_toString X x radix
      | PosInfinity \<Rightarrow> ''Infinity''
      | NegInfinity \<Rightarrow> ''-Infinity''
      | NaN \<Rightarrow> ''NaN'')"

text \<open>
  Reading a numeral, to say what a text of digits denotes: the value of the digits in
  the radix, for a text that has at least one digit, no leading zero except in the
  numeral 0 itself, and a minus sign only before a numeral other than 0.  Every integer
  has one such numeral in a radix.
\<close>

definition digit_value :: "char \<Rightarrow> nat option" where
  "digit_value c =
     (let i = length (takeWhile (\<lambda>d. d \<noteq> c) ''0123456789abcdef'')
      in if i < 16 then Some i else None)"

fun parse_digits :: "nat \<Rightarrow> nat \<Rightarrow> string \<Rightarrow> nat option" where
  "parse_digits radix acc [] = Some acc"
| "parse_digits radix acc (c # cs) =
     (case digit_value c of
        None \<Rightarrow> None
      | Some d \<Rightarrow> if d < radix then parse_digits radix (acc * radix + d) cs else None)"

definition parse_nat :: "nat \<Rightarrow> string \<Rightarrow> nat option" where
  "parse_nat radix cs =
     (if cs = [] \<or> (hd cs = CHR ''0'' \<and> tl cs \<noteq> []) then None
      else parse_digits radix 0 cs)"

definition parse_int :: "nat \<Rightarrow> string \<Rightarrow> int option" where
  "parse_int radix str =
     (if str \<noteq> [] \<and> hd str = CHR ''-''
      then (case parse_nat radix (tl str) of
              None \<Rightarrow> None
            | Some n \<Rightarrow> if n = 0 then None else Some (- int n))
      else map_option int (parse_nat radix str))"

text \<open>\<^verbatim>\<open>s.padStart(n, '0')\<close>.\<close>

definition padStart :: "nat \<Rightarrow> char \<Rightarrow> string \<Rightarrow> string" where
  "padStart n c str = replicate (n - length str) c @ str"

section \<open>Error responses\<close>

text \<open>
  \<^verbatim>\<open>formatPII\<close> replaces every match of \<^verbatim>\<open>/{([^}]+)}/g\<close>: an opening brace, one or
  more characters other than a closing brace, and a closing brace.  The scan is from the
  left; where no match starts, the character is copied.
\<close>

definition replacement :: "bool \<Rightarrow> (string \<times> string) list \<Rightarrow> string \<Rightarrow> string" where
  "replacement excludePII safeArgs paramName =
     (let match = CHR ''{'' # paramName @ [CHR ''}'']
      in if excludePII \<and> length paramName > 0 \<and> hd paramName \<noteq> CHR ''_'' then match
         else (case map_of safeArgs paramName of
                 Some v \<Rightarrow> if v \<noteq> [] then v else match
               | None \<Rightarrow> match))"

function replace_all :: "bool \<Rightarrow> (string \<times> string) list \<Rightarrow> string \<Rightarrow> string" where
  "replace_all excludePII safeArgs [] = []"
| "replace_all excludePII safeArgs (c # cs) =
     (let paramName = takeWhile (\<lambda>x. x \<noteq> CHR ''}'') cs;
          rest = dropWhile (\<lambda>x. x \<noteq> CHR ''}'') cs
      in if c = CHR ''{'' \<and> paramName \<noteq> [] \<and> rest \<noteq> []
         then replacement excludePII safeArgs paramName @ replace_all excludePII safeArgs (tl rest)
         else c # replace_all excludePII safeArgs cs)"
  by pat_completeness auto
termination
proof (relation "measure (\<lambda>(e, a, cs). length cs)")
  show "wf (measure (\<lambda>(e, a, cs). length cs))" by simp
next
  fix excludePII :: bool and safeArgs :: "(string \<times> string) list" and c :: char
    and cs x xa :: string
  assume "xa = dropWhile (\<lambda>x. x \<noteq> CHR ''}'') cs"
  moreover have "length (dropWhile (\<lambda>x. x \<noteq> CHR ''}'') cs) \<le> length cs"
    by (rule length_dropWhile_le)
  ultimately have "length (tl xa) \<le> length cs"
    by simp
  then show "((excludePII, safeArgs, tl xa), (excludePII, safeArgs, c # cs))
             \<in> measure (\<lambda>(e, a, cs). length cs)"
    by simp
next
  fix excludePII :: bool and safeArgs :: "(string \<times> string) list" and c :: char
    and cs x xa :: string
  show "((excludePII, safeArgs, cs), (excludePII, safeArgs, c # cs))
        \<in> measure (\<lambda>(e, a, cs). length cs)"
    by simp
qed

declare replace_all.simps [simp del]

definition formatPII :: "string \<Rightarrow> bool \<Rightarrow> (string \<times> string) list option \<Rightarrow> string" where
  "formatPII fmt excludePII args =
     replace_all excludePII (case args of None \<Rightarrow> [] | Some a \<Rightarrow> a) fmt"

text \<open>The structured error \<^verbatim>\<open>DebugProtocol.Message\<close> and its place in a body.\<close>

record ErrorMessage =
  message_id :: int
  format :: string
  variables :: "(string \<times> string) list option"
  sendTelemetry :: "bool option"
  showUser :: "bool option"
  url :: "string option"
  urlLabel :: "string option"

definition optional :: "string \<Rightarrow> ('a \<Rightarrow> json) \<Rightarrow> 'a option \<Rightarrow> (string \<times> json) list" where
  "optional k f v = (case v of None \<Rightarrow> [] | Some x \<Rightarrow> [(k, f x)])"

definition ErrorMessage_json :: "ErrorMessage \<Rightarrow> json" where
  "ErrorMessage_json m =
     JObj ([(''id'', JNum (message_id m)), (''format'', JStr (format m))]
           @ optional ''variables'' (\<lambda>vs. JObj (map (\<lambda>(k, v). (k, JStr v)) vs)) (variables m)
           @ optional ''showUser'' JBool (showUser m)
           @ optional ''sendTelemetry'' JBool (sendTelemetry m)
           @ optional ''url'' JStr (url m)
           @ optional ''urlLabel'' JStr (urlLabel m))"

text \<open>
  \<^verbatim>\<open>sendErrorResponse(response, codeOrMessage, format?, variables?, dest = ErrorDestination.User)\<close>.
  With a numeric code and no format, \<^verbatim>\<open>formatPII\<close> calls \<^verbatim>\<open>replace\<close> on
  \<^verbatim>\<open>undefined\<close>, which throws.
\<close>

definition error_message :: "externals \<Rightarrow> int + ErrorMessage \<Rightarrow> string option
    \<Rightarrow> (string \<times> string) list option \<Rightarrow> 32 word option \<Rightarrow> js_error + ErrorMessage" where
  "error_message X codeOrMessage fmt vars dest =
     (case codeOrMessage of
        Inr m \<Rightarrow> Inr m
      | Inl code \<Rightarrow>
          (case fmt of
             None \<Rightarrow> Inl TypeError
           | Some f \<Rightarrow>
               (let d = (case dest of None \<Rightarrow> ErrorDestination_User X | Some d \<Rightarrow> d)
                in Inr \<lparr>message_id = code, format = f, variables = vars,
                        sendTelemetry =
                          (if and d (ErrorDestination_Telemetry X) \<noteq> 0 then Some True else None),
                        showUser =
                          (if and d (ErrorDestination_User X) \<noteq> 0 then Some True else None),
                        url = None, urlLabel = None\<rparr>)))"

definition sendErrorResponse :: "externals \<Rightarrow> Response \<Rightarrow> int + ErrorMessage \<Rightarrow> string option
    \<Rightarrow> (string \<times> string) list option \<Rightarrow> 32 word option \<Rightarrow> DebugProtocolAdapter
    \<Rightarrow> js_error + Response \<times> DebugProtocolAdapter" where
  "sendErrorResponse X response codeOrMessage fmt vars dest s =
     (case error_message X codeOrMessage fmt vars dest of
        Inl e \<Rightarrow> Inl e
      | Inr msg \<Rightarrow>
          Inr (sendResponse
                 (response\<lparr>success := False,
                    message := Some (formatPII (format msg) True (variables msg)),
                    body := Some (AList.update ''error'' (ErrorMessage_json msg)
                                    (case body response of None \<Rightarrow> [] | Some b \<Rightarrow> b))\<rparr>)
                 s))"

section \<open>Lines, columns and addresses\<close>

definition convertDebuggerLineToClient :: "DebugProtocolAdapter \<Rightarrow> int \<Rightarrow> int" where
  "convertDebuggerLineToClient s line =
     (if debuggerLinesStartAt1 s
      then (if clientLinesStartAt1 s then line else line - 1)
      else (if clientLinesStartAt1 s then line + 1 else line))"

definition convertDebuggerColumnToClient :: "DebugProtocolAdapter \<Rightarrow> int \<Rightarrow> int" where
  "convertDebuggerColumnToClient s column =
     (if debuggerColumnsStartAt1 s
      then (if clientColumnsStartAt1 s then column else column - 1)
      else (if clientColumnsStartAt1 s then column + 1 else column))"

text \<open>
  Modelled from the spec: the source has no conversion from the client's numbering to
  the debugger's (\<open>toEngine\<close> of the spec).  The spec says that it applies
  ``a \<open>\<plusminus>\<close>1 shift only when the two conventions disagree; identity when they agree'';
  the direction of the shift is the one that numbers the same line: a client that counts
  from 1 is one ahead of a debugger that counts from 0.
\<close>

definition convertClientLineToDebugger :: "DebugProtocolAdapter \<Rightarrow> int \<Rightarrow> int" where
  "convertClientLineToDebugger s line =
     (if debuggerLinesStartAt1 s = clientLinesStartAt1 s then line
      else if clientLinesStartAt1 s then line - 1 else line + 1)"

text \<open>Modelled from the spec: the same for columns.\<close>

definition convertClientColumnToDebugger :: "DebugProtocolAdapter \<Rightarrow> int \<Rightarrow> int" where
  "convertClientColumnToDebugger s column =
     (if debuggerColumnsStartAt1 s = clientColumnsStartAt1 s then column
      else if clientColumnsStartAt1 s then column - 1 else column + 1)"

definition formatAddress :: "externals \<Rightarrow> DebugProtocolAdapter \<Rightarrow> int \<Rightarrow> string" where
  "formatAddress X s x =
     ''mem'' @ (if addressesInHex s then ''0x'' @ padStart 8 CHR ''0'' (integer_toString X 16 x)
                else integer_toString X 10 x)"

definition formatNumber :: "externals \<Rightarrow> DebugProtocolAdapter \<Rightarrow> js_number \<Rightarrow> string" where
  "formatNumber X s x = (if valuesInHex s then ''0x'' @ toString X 16 x else toString X 10 x)"

section \<open>The engine hooks of the base class\<close>

record IRuntimeStackFrame =
  index :: int
  frame_name :: string
  frame_file :: string
  line :: int
  column :: "int option"
  instruction :: "int option"

record IRuntimeStack =
  count :: int
  frames :: "IRuntimeStackFrame list"

text \<open>
  \<^verbatim>\<open>stack\<close>, \<^verbatim>\<open>getLocalVariables\<close> and \<^verbatim>\<open>getGlobalVariables\<close> as the class
  \<^verbatim>\<open>DebugProtocolAdapter\<close> defines them.  The variables are the addresses of their
  objects.
\<close>

definition stack :: "DebugProtocolAdapter \<Rightarrow> int \<Rightarrow> int \<Rightarrow> IRuntimeStack" where
  "stack s startFrame endFrame = \<lparr>count = 0, frames = []\<rparr>"

definition getLocalVariables :: "DebugProtocolAdapter \<Rightarrow> nat list" where
  "getLocalVariables s = []"

definition getGlobalVariables :: "DebugProtocolAdapter \<Rightarrow> nat list" where
  "getGlobalVariables s = []"

section \<open>Formatting a variable (\<^verbatim>\<open>convertFromRuntime\<close>)\<close>

text \<open>\<^verbatim>\<open>name.indexOf(pat) >= 0\<close>: the pattern occurs in the name.\<close>

fun indexOf_found :: "string \<Rightarrow> string \<Rightarrow> bool" where
  "indexOf_found pat [] = (pat = [])"
| "indexOf_found pat (c # cs) = (take (length pat) (c # cs) = pat \<or> indexOf_found pat cs)"

definition typeof :: "IRuntimeVariableType \<Rightarrow> string" where
  "typeof v =
     (case v of
        Number x \<Rightarrow> ''number''
      | Boolean b \<Rightarrow> ''boolean''
      | String str \<Rightarrow> ''string''
      | Array vs \<Rightarrow> ''object'')"

text \<open>\<^verbatim>\<open>new RuntimeVariable(...)\<close> puts a new object in the heap.\<close>

definition allocate :: "RuntimeVariable \<Rightarrow> DebugProtocolAdapter \<Rightarrow> nat \<times> DebugProtocolAdapter" where
  "allocate v s = (length (heap s), s\<lparr>heap := heap s @ [v]\<rparr>)"

text \<open>
  \<^verbatim>\<open>v.reference ??= this._variableHandles.create(target)\<close> for the variable at address
  \<open>a\<close>: the right-hand side runs only when the reference is not yet assigned.
\<close>

definition assign_reference :: "nat \<Rightarrow> handle_target \<Rightarrow> DebugProtocolAdapter \<Rightarrow> int \<times> DebugProtocolAdapter" where
  "assign_reference a target s =
     (case reference (heap s ! a) of
        Some h \<Rightarrow> (h, s)
      | None \<Rightarrow>
          (case Handles_create target (variableHandles s) of
             (h, t) \<Rightarrow>
               (h, s\<lparr>variableHandles := t,
                      heap := (heap s)[a := (heap s ! a)\<lparr>reference := Some h\<rparr>]\<rparr>)))"

text \<open>
  The lazy branch:
  \<^verbatim>\<open>v.reference ??= this._variableHandles.create(new RuntimeVariable('', [new RuntimeVariable('', v.value)]))\<close>.
\<close>

definition lazy_reference :: "nat \<Rightarrow> DebugProtocolAdapter \<Rightarrow> int \<times> DebugProtocolAdapter" where
  "lazy_reference a s =
     (case reference (heap s ! a) of
        Some h \<Rightarrow> (h, s)
      | None \<Rightarrow>
          (case allocate (RuntimeVariable_new [] (private_value (heap s ! a))) s of
             (inner, s1) \<Rightarrow>
               (case allocate (RuntimeVariable_new [] (Array [inner])) s1 of
                  (outer, s2) \<Rightarrow> assign_reference a (Variable outer) s2)))"

text \<open>The rendering of the value, by its tag; \<open>dap\<close> is the object \<^verbatim>\<open>dapVariable\<close>.\<close>

definition render :: "externals \<Rightarrow> nat \<Rightarrow> (string \<times> json) list \<Rightarrow> DebugProtocolAdapter
    \<Rightarrow> (string \<times> json) list \<times> DebugProtocolAdapter" where
  "render X a dap s =
     (let v = heap s ! a
      in if indexOf_found ''lazy'' (name v)
         then (case lazy_reference a s of
                 (h, s') \<Rightarrow>
                   (AList.update ''presentationHint'' (JObj [(''lazy'', JBool True)])
                      (AList.update ''variablesReference'' (JNum h)
                         (AList.update ''value'' (JStr ''lazy var'') dap)), s'))
         else (case private_value v of
                 Array vs \<Rightarrow>
                   (case assign_reference a (Variable a) s of
                      (h, s') \<Rightarrow>
                        (AList.update ''variablesReference'' (JNum h)
                           (AList.update ''value'' (JStr ''Object'') dap), s'))
               | Number x \<Rightarrow>
                   (if Math_round_same x
                    then (AList.update ''type'' (JStr ''integer'')
                            (AList.update ''__vscodeVariableMenuContext'' (JStr ''simple'')
                               (AList.update ''value'' (JStr (formatNumber X s x)) dap)), s)
                    else (AList.update ''type'' (JStr ''float'')
                            (AList.update ''value'' (JStr (toString X 10 x)) dap), s))
               | String str \<Rightarrow>
                   (AList.update ''value'' (JStr ([CHR 0x22] @ str @ [CHR 0x22])) dap, s)
               | Boolean b \<Rightarrow>
                   (AList.update ''value'' (JStr (if b then ''true'' else ''false'')) dap, s)))"

text \<open>
  The last step: \<^verbatim>\<open>if (v.memory) { v.reference ??= ...create(v); dapVariable.memoryReference = String(v.reference); }\<close>.
  A byte array is an object, so it is truthy also when it is empty.
\<close>

definition memory_reference :: "externals \<Rightarrow> nat \<Rightarrow> (string \<times> json) list \<Rightarrow> DebugProtocolAdapter
    \<Rightarrow> (string \<times> json) list \<times> DebugProtocolAdapter" where
  "memory_reference X a dap s =
     (case RuntimeVariable_memory (heap s ! a) of
        (m, v') \<Rightarrow>
          (let s1 = s\<lparr>heap := (heap s)[a := v']\<rparr>
           in case m of
                None \<Rightarrow> (dap, s1)
              | Some bytes \<Rightarrow>
                  (case assign_reference a (Variable a) s1 of
                     (h, s2) \<Rightarrow>
                       (AList.update ''memoryReference'' (JStr (integer_toString X 10 h)) dap, s2))))"

text \<open>
  \<^verbatim>\<open>convertFromRuntime(v)\<close> for the variable at address \<open>a\<close>.  An address with no
  object cannot arise in the program; the model reports it as the TypeError that the
  read of \<^verbatim>\<open>v.name\<close> would throw.
\<close>

definition convertFromRuntime :: "externals \<Rightarrow> nat \<Rightarrow> DebugProtocolAdapter
    \<Rightarrow> js_error + (string \<times> json) list \<times> DebugProtocolAdapter" where
  "convertFromRuntime X a s =
     (if length (heap s) \<le> a then Inl TypeError
      else (let v = heap s ! a;
                dapVariable =
                  [(''name'', JStr (name v)),
                   (''value'', JStr ''???''),
                   (''type'', JStr (typeof (private_value v))),
                   (''variablesReference'', JNum 0),
                   (''evaluateName'', JStr (CHR ''$'' # name v))]
            in case render X a dapVariable s of
                 (dap, s') \<Rightarrow> Inr (memory_reference X a dap s')))"

text \<open>\<^verbatim>\<open>vs.map(v => this.convertFromRuntime(v))\<close>, threading the adapter.\<close>

fun convertAll :: "externals \<Rightarrow> nat list \<Rightarrow> DebugProtocolAdapter
    \<Rightarrow> js_error + json list \<times> DebugProtocolAdapter" where
  "convertAll X [] s = Inr ([], s)"
| "convertAll X (a # as) s =
     (case convertFromRuntime X a s of
        Inl e \<Rightarrow> Inl e
      | Inr (dap, s') \<Rightarrow>
          (case convertAll X as s' of
             Inl e \<Rightarrow> Inl e
           | Inr (daps, s'') \<Rightarrow> Inr (JObj dap # daps, s'')))"

section \<open>The request handlers\<close>

text \<open>
  The capabilities that \<^verbatim>\<open>initializeRequest\<close> assigns to \<^verbatim>\<open>response.body\<close>, in the
  order of the assignments.
\<close>

definition capabilities :: "(string \<times> bool) list" where
  "capabilities =
     [(''supportsConditionalBreakpoints'', False),
      (''supportsHitConditionalBreakpoints'', False),
      (''supportsFunctionBreakpoints'', False),
      (''supportsConfigurationDoneRequest'', True),
      (''supportsEvaluateForHovers'', False),
      (''supportsStepBack'', False),
      (''supportsSetVariable'', False),
      (''supportsRestartFrame'', False),
      (''supportsStepInTargetsRequest'', False),
      (''supportsGotoTargetsRequest'', False),
      (''supportsCompletionsRequest'', False),
      (''supportsRestartRequest'', False),
      (''supportsExceptionOptions'', False),
      (''supportsValueFormattingOptions'', False),
      (''supportsExceptionInfoRequest'', False),
      (''supportTerminateDebuggee'', False),
      (''supportsDelayedStackTraceLoading'', False),
      (''supportsLoadedSourcesRequest'', False),
      (''supportsLogPoints'', False),
      (''supportsTerminateThreadsRequest'', False),
      (''supportsSetExpression'', False),
      (''supportsTerminateRequest'', False),
      (''supportsDataBreakpoints'', False),
      (''supportsReadMemoryRequest'', False),
      (''supportsDisassembleRequest'', False),
      (''supportsCancelRequest'', False),
      (''supportsBreakpointLocationsRequest'', False),
      (''supportsClipboardContext'', False),
      (''supportsSteppingGranularity'', False),
      (''supportsInstructionBreakpoints'', False),
      (''supportsExceptionFilterOptions'', False)]"

definition initialized_event :: Event where
  "initialized_event = \<lparr>seq = 0, type = ''event'', event = ''initialized'', event_body = None\<rparr>"

text \<open>
  \<^verbatim>\<open>initializeRequest\<close>: return at once when the response has no body; otherwise assign
  the capabilities, then \<^verbatim>\<open>sendEvent\<close>, then \<^verbatim>\<open>sendResponse\<close>.
\<close>

definition initializeRequest :: "Response \<Rightarrow> json option \<Rightarrow> DebugProtocolAdapter \<Rightarrow> DebugProtocolAdapter" where
  "initializeRequest response args s =
     (case body response of
        None \<Rightarrow> s
      | Some b \<Rightarrow>
          snd (sendResponse
                 (response\<lparr>body := Some (foldl (\<lambda>b (k, v). AList.update k (JBool v) b) b capabilities)\<rparr>)
                 (sendEvent initialized_event s)))"

text \<open>
  The stack frame that \<^verbatim>\<open>stackTraceRequest\<close> builds from a frame of the engine.  The
  classes \<^verbatim>\<open>StackFrame\<close> and \<^verbatim>\<open>Source\<close> come from the adapter library; their
  constructors store the arguments under the property names of the protocol, the
  column and the \<^verbatim>\<open>sourceReference\<close> defaulting to 0.
\<close>

definition createSource :: "externals \<Rightarrow> string \<Rightarrow> json" where
  "createSource X filePath =
     JObj [(''name'', JStr (basename X filePath)),
           (''path'', JStr filePath),
           (''sourceReference'', JNum 0),
           (''adapterData'', JStr ''mock-adapter-data'')]"

definition stackFrame :: "externals \<Rightarrow> DebugProtocolAdapter \<Rightarrow> IRuntimeStackFrame \<Rightarrow> json" where
  "stackFrame X s f =
     (let sf = [(''id'', JNum (index f)),
                (''source'', createSource X (frame_file f)),
                (''line'', JNum (convertDebuggerLineToClient s (line f))),
                (''column'', JNum 0),
                (''name'', JStr (frame_name f))];
          sf1 = (case column f of
                   Some c \<Rightarrow> AList.update ''column'' (JNum (convertDebuggerColumnToClient s c)) sf
                 | None \<Rightarrow> sf);
          sf2 = (case instruction f of
                   Some i \<Rightarrow>
                     AList.update ''instructionPointerReference'' (JStr (formatAddress X s i))
                       (AList.update ''name'' (JStr (frame_name f @ '' '' @ formatAddress X s i)) sf1)
                 | None \<Rightarrow> sf1)
      in JObj sf2)"

definition number_or :: "int \<Rightarrow> json option \<Rightarrow> int" where
  "number_or d v = (case v of Some (JNum n) \<Rightarrow> n | _ \<Rightarrow> d)"

definition stackTraceRequest :: "externals \<Rightarrow> Response \<Rightarrow> json option \<Rightarrow> DebugProtocolAdapter
    \<Rightarrow> js_error + DebugProtocolAdapter" where
  "stackTraceRequest X response args s =
     (case get_property args ''startFrame'' of
        Inl e \<Rightarrow> Inl e
      | Inr sf \<Rightarrow>
          (case get_property args ''levels'' of
             Inl e \<Rightarrow> Inl e
           | Inr lv \<Rightarrow>
               (let startFrame = number_or 0 sf;
                    maxLevels = number_or 1000 lv;
                    endFrame = startFrame + maxLevels;
                    stk = stack s startFrame endFrame
                in Inr (snd (sendResponse
                               (response\<lparr>body := Some [(''stackFrames'', JArr (map (stackFrame X s) (frames stk))),
                                                        (''totalFrames'', JNum (count stk))]\<rparr>)
                               s)))))"

text \<open>
  \<^verbatim>\<open>variablesRequest\<close>.  Every value a handle is bound to is truthy (a non-empty string
  or an object), and \<^verbatim>\<open>get\<close> is called without a default.  A reference that is not a
  number is no key of the map.
\<close>

definition variablesRequest :: "externals \<Rightarrow> Response \<Rightarrow> json option \<Rightarrow> DebugProtocolAdapter
    \<Rightarrow> js_error + DebugProtocolAdapter" where
  "variablesRequest X response args s =
     (case get_property args ''variablesReference'' of
        Inl e \<Rightarrow> Inl e
      | Inr ref \<Rightarrow>
          (let v = (case ref of
                      Some (JNum n) \<Rightarrow> Handles_get (\<lambda>_. True) n None (variableHandles s)
                    | _ \<Rightarrow> None);
               vs = (case v of
                       Some Locals \<Rightarrow> getLocalVariables s
                     | Some Globals \<Rightarrow> getGlobalVariables s
                     | Some (Variable a) \<Rightarrow>
                         (if a < length (heap s)
                          then (case private_value (heap s ! a) of Array xs \<Rightarrow> xs | _ \<Rightarrow> [])
                          else [])
                     | None \<Rightarrow> [])
           in case convertAll X vs s of
                Inl e \<Rightarrow> Inl e
              | Inr (daps, s') \<Rightarrow>
                  Inr (snd (sendResponse (response\<lparr>body := Some [(''variables'', JArr daps)]\<rparr>) s'))))"

section \<open>The dispatcher\<close>

text \<open>
  The commands whose handler in \<^verbatim>\<open>DebugProtocolAdapter\<close> is
  \<^verbatim>\<open>this.sendResponse(response)\<close> and nothing else, in the order of the dispatcher's
  comparisons.
\<close>

definition sendResponse_commands :: "string list" where
  "sendResponse_commands =
     [''launch'', ''attach'', ''disconnect'', ''terminate'', ''restart'',
      ''setBreakpoints'', ''setFunctionBreakpoints'', ''setExceptionBreakpoints'',
      ''configurationDone'', ''continue'', ''next'', ''stepIn'', ''stepOut'', ''stepBack'',
      ''reverseContinue'', ''restartFrame'', ''goto'', ''pause'', ''scopes'',
      ''setVariable'', ''setExpression'', ''source'', ''threads'', ''terminateThreads'',
      ''evaluate'', ''stepInTargets'', ''gotoTargets'', ''completions'', ''exceptionInfo'',
      ''loadedSources'', ''dataBreakpointInfo'', ''setDataBreakpoints'', ''readMemory'',
      ''writeMemory'', ''disassemble'', ''cancel'', ''breakpointLocations'',
      ''setInstructionBreakpoints'']"

text \<open>The fixed dispatch set: every command the dispatcher compares with.\<close>

definition dispatch_commands :: "string list" where
  "dispatch_commands = ''initialize'' # ''stackTrace'' # ''variables'' # sendResponse_commands"

definition set_flag :: "json option \<Rightarrow> bool \<Rightarrow> bool" where
  "set_flag v old = (case v of Some (JBool b) \<Rightarrow> b | _ \<Rightarrow> old)"

text \<open>The branch of \<^verbatim>\<open>dispatchRequest\<close> for \<^verbatim>\<open>initialize\<close>.\<close>

definition dispatch_initialize :: "externals \<Rightarrow> Request \<Rightarrow> Response \<Rightarrow> DebugProtocolAdapter
    \<Rightarrow> js_error + DebugProtocolAdapter" where
  "dispatch_initialize X request response s =
     (case get_property (arguments request) ''linesStartAt1'' of
        Inl e \<Rightarrow> Inl e
      | Inr l \<Rightarrow>
          (case get_property (arguments request) ''columnsStartAt1'' of
             Inl e \<Rightarrow> Inl e
           | Inr c \<Rightarrow>
               (case get_property (arguments request) ''pathFormat'' of
                  Inl e \<Rightarrow> Inl e
                | Inr p \<Rightarrow>
                    (let s' = s\<lparr>clientLinesStartAt1 := set_flag l (clientLinesStartAt1 s),
                                clientColumnsStartAt1 := set_flag c (clientColumnsStartAt1 s)\<rparr>
                     in if p \<noteq> Some (JStr ''path'')
                        then map_sum id snd
                               (sendErrorResponse X response (Inl 2018)
                                  (Some ''debug adapter only supports native paths'') None
                                  (Some (ErrorDestination_Telemetry X)) s')
                        else Inr (initializeRequest (response\<lparr>body := Some []\<rparr>)
                                    (arguments request) s')))))"

definition dispatchRequest :: "externals \<Rightarrow> Request \<Rightarrow> DebugProtocolAdapter
    \<Rightarrow> js_error + DebugProtocolAdapter" where
  "dispatchRequest X request s =
     (let response = Response_new request None
      in if request_command request = ''initialize''
         then dispatch_initialize X request response s
         else if request_command request \<in> set sendResponse_commands
         then Inr (snd (sendResponse response s))
         else if request_command request = ''stackTrace''
         then stackTraceRequest X response (arguments request) s
         else if request_command request = ''variables''
         then variablesRequest X response (arguments request) s
         else Inr (s\<lparr>console := console s @ [Error_UnknownRequest (request_command request)]\<rparr>))"

text \<open>
  \<^verbatim>\<open>handleMessage\<close> branches on \<^verbatim>\<open>msg.type\<close> and casts; the constructor of the
  inbound message stands for its type.
\<close>

datatype inbound = InRequest Request | InResponse Response | InEvent Event

fun handleMessage :: "externals \<Rightarrow> inbound \<Rightarrow> DebugProtocolAdapter \<Rightarrow> js_error + DebugProtocolAdapter" where
  "handleMessage X (InRequest request) s = dispatchRequest X request s"
| "handleMessage X (InResponse response) s =
     (case pendingRequests s (request_seq response) of
        Some clb \<Rightarrow>
          Inr (s\<lparr>pendingRequests := (pendingRequests s)(request_seq response := None),
                 resolved := resolved s @ [(clb, response)]\<rparr>)
      | None \<Rightarrow> Inr s)"
| "handleMessage X (InEvent e) s = Inr s"

text \<open>The messages that \<^verbatim>\<open>_send\<close> fired, read off the console.\<close>

fun fired :: "console_entry list \<Rightarrow> ProtocolMessage list" where
  "fired [] = []"
| "fired (Info_Firing m # es) = m # fired es"
| "fired (e # es) = fired es"

fun message_seq :: "ProtocolMessage \<Rightarrow> int" where
  "message_seq (ResponseMessage r) = seq r"
| "message_seq (EventMessage e) = seq e"

fun message_type :: "ProtocolMessage \<Rightarrow> string" where
  "message_type (ResponseMessage r) = type r"
| "message_type (EventMessage e) = type e"

section \<open>Concrete inputs\<close>

text \<open>
  Values on which the model is run.  The masks are those of the adapter library's
  enumeration (\<^verbatim>\<open>User = 1\<close>, \<^verbatim>\<open>Telemetry = 2\<close>); the two functions stand for
  the library's on the inputs used here: a path with no directory, and the numbers
  \<open>10^21\<close>, whose text in radix 10 is \<^verbatim>\<open>1e+21\<close>, and 1.5.
\<close>

definition sample_externals :: externals where
  "sample_externals =
     \<lparr>ErrorDestination_User = 1, ErrorDestination_Telemetry = 2,
      basename = (\<lambda>p. p),
      Number_toString = (\<lambda>x radix. if x = 10 ^ 21 \<and> radix = 10 then ''1e+21'' else ''1.5'')\<rparr>"

text \<open>A new adapter whose \<^verbatim>\<open>onDidSendMessage\<close> has a subscriber.\<close>

definition attached_adapter :: DebugProtocolAdapter where
  "attached_adapter = onDidSendMessage (DebugProtocolAdapter_new None)"

definition launch_request :: "int \<Rightarrow> Request" where
  "launch_request n =
     \<lparr>seq = n, type = ''request'', request_command = ''launch'', arguments = None\<rparr>"

definition initialize_request :: "string \<Rightarrow> bool \<Rightarrow> Request" where
  "initialize_request pathFormat startAt1 =
     \<lparr>seq = 1, type = ''request'', request_command = ''initialize'',
      arguments = Some (JObj [(''pathFormat'', JStr pathFormat),
                             (''linesStartAt1'', JBool startAt1),
                             (''columnsStartAt1'', JBool startAt1)])\<rparr>"

text \<open>The custom request that the extension sends and the adapter does not know.\<close>

definition toggleFormatting_request :: Request where
  "toggleFormatting_request =
     \<lparr>seq = 7, type = ''request'', request_command = ''toggleFormatting'', arguments = None\<rparr>"

text \<open>An adapter whose heap holds the one variable given.\<close>

definition adapter_with :: "string \<Rightarrow> IRuntimeVariableType \<Rightarrow> DebugProtocolAdapter" where
  "adapter_with n v = attached_adapter\<lparr>heap := [RuntimeVariable_new n v]\<rparr>"

section \<open>Properties of the handle table\<close>








section \<open>Properties of the emission channel\<close>

lemma fired_append: "fired (xs @ ys) = fired xs @ fired ys"
  by (induction xs rule: fired.induct) simp_all

lemma private_send_transport:
  "transport (private_send typ m s) = transport s @ (if listener s then [set_type typ m] else [])"
  by (simp add: private_send_def fire_def Let_def)

lemma private_send_fired:
  "fired (console (private_send typ m s)) = fired (console s) @ [set_type typ m]"
  by (simp add: private_send_def fire_def Let_def fired_append)

lemma private_send_other:
  "immediate (private_send typ m s) = immediate s"
  "listener (private_send typ m s) = listener s"
  "heap (private_send typ m s) = heap s"
  "variableHandles (private_send typ m s) = variableHandles s"
  "clientLinesStartAt1 (private_send typ m s) = clientLinesStartAt1 s"
  "clientColumnsStartAt1 (private_send typ m s) = clientColumnsStartAt1 s"
  by (simp_all add: private_send_def fire_def Let_def)

lemma sendResponse_unsent:
  "seq r \<le> 0 \<Longrightarrow>
   sendResponse r s =
     (r\<lparr>type := ''response''\<rparr>,
      private_send ''response'' (ResponseMessage (r\<lparr>type := ''response''\<rparr>)) s)"
  by (simp add: sendResponse_def Let_def)

lemma run_callbacks_transport:
  "transport (run_callbacks es s) =
     transport s @ (if listener s then map (\<lambda>e. EventMessage (e\<lparr>type := ''event''\<rparr>)) es else [])"
  by (induction es arbitrary: s) (simp_all add: private_send_transport private_send_other)

lemma get_property_total:
  "get_property a k = Inr p \<Longrightarrow>
   get_property a k' = Inr (case a of Some (JObj kvs) \<Rightarrow> map_of kvs k' | _ \<Rightarrow> None)"
  by (auto simp: get_property_def split: option.splits json.splits)

lemma formatPII_native_paths:
  "formatPII ''debug adapter only supports native paths'' True None
     = ''debug adapter only supports native paths''"
  by (simp add: formatPII_def replace_all.simps)

lemma capabilities_body:
  "foldl (\<lambda>b (k, v). AList.update k (JBool v) b) [] capabilities
     = map (\<lambda>(k, v). (k, JBool v)) capabilities"
  by (simp add: capabilities_def)

lemmas sample_defs =
  sample_externals_def attached_adapter_def launch_request_def initialize_request_def
  toggleFormatting_request_def adapter_with_def onDidSendMessage_def
  DebugProtocolAdapter_new_def

section \<open>Responses and sequence numbers\<close>

text \<open>
  C1 (the code does not do what the claim says): \<^verbatim>\<open>sendResponse\<close> tells a second send
  by \<^verbatim>\<open>response.seq > 0\<close>, but \<^verbatim>\<open>_send\<close> never assigns \<^verbatim>\<open>seq\<close>.  For the response
  to a \<^verbatim>\<open>launch\<close> request, sent twice through an adapter with a listener: after the
  first send its \<^verbatim>\<open>seq\<close> is still 0, and the second send reaches the transport as well.
\<close>

theorem C1_second_response_is_sent:
  "seq (fst (sendResponse (Response_new (launch_request 1) None) attached_adapter)) = 0
   \<and> transport
        (snd (sendResponse
                (fst (sendResponse (Response_new (launch_request 1) None) attached_adapter))
                (snd (sendResponse (Response_new (launch_request 1) None) attached_adapter))))
     = [ResponseMessage (Response_new (launch_request 1) None),
        ResponseMessage (Response_new (launch_request 1) None)]"
  by (simp add: Response_new_def sendResponse_unsent private_send_transport
      private_send_other sample_defs)

text \<open>
  C2 (the code does not do what the claim says): two \<^verbatim>\<open>launch\<close> requests, with
  sequence numbers 1 and 2, are answered by two different responses that both carry
  \<^verbatim>\<open>seq\<close> 0.
\<close>

theorem C2_responses_share_seq:
  "map message_seq
     (transport (projr (dispatchRequest sample_externals (launch_request 2)
        (projr (dispatchRequest sample_externals (launch_request 1) attached_adapter)))))
     = [0, 0]
   \<and> distinct
     (transport (projr (dispatchRequest sample_externals (launch_request 2)
        (projr (dispatchRequest sample_externals (launch_request 1) attached_adapter)))))"
  by (simp add: dispatchRequest_def sendResponse_commands_def Response_new_def
      sendResponse_unsent private_send_transport private_send_other sample_defs)

section \<open>The \<^verbatim>\<open>initialize\<close> request\<close>

text \<open>
  C4, as the claim states it, fails: for the request
  \<^verbatim>\<open>{seq: 1, command: "initialize", arguments: {pathFormat: "path", linesStartAt1: true, columnsStartAt1: true}}\<close>
  the transport has received the response and no event when the dispatcher returns,
  and the event follows the response once the scheduled callback has run.
\<close>

theorem C4_response_first_counterexample:
  "map message_type
     (transport (projr (dispatchRequest sample_externals (initialize_request ''path'' True)
                          attached_adapter)))
     = [''response'']
   \<and> map message_type
     (transport (run_immediate
        (projr (dispatchRequest sample_externals (initialize_request ''path'' True)
                  attached_adapter))))
     = [''response'', ''event'']"
  by (simp add: dispatchRequest_def dispatch_initialize_def Let_def get_property_def
      set_flag_def initializeRequest_def sendEvent_def Response_new_def sendResponse_unsent
      private_send_transport private_send_other run_immediate_def run_callbacks_transport
      initialized_event_def sample_defs)

text \<open>
  C4, amended: for every initialize request whose arguments have pathFormat equal to
  \<^verbatim>\<open>"path"\<close>, handled by an adapter that has a listener, the dispatcher delivers the
  successful response to the transport before it returns; the response carries
  \<^verbatim>\<open>request_seq\<close> equal to the request's \<^verbatim>\<open>seq\<close> and a body that holds every capability
  flag, each a boolean.  The \<^verbatim>\<open>initialized\<close> event is only scheduled by then, and when
  the scheduled callbacks have run the transport has received it after the response
  (and after the events scheduled earlier).
\<close>

theorem C4_initialize_response_then_event:
  assumes "request_command r = ''initialize''"
    and "get_property (arguments r) ''pathFormat'' = Inr (Some (JStr ''path''))"
    and "listener s"
  shows "\<exists>s' resp.
           dispatchRequest X r s = Inr s'
         \<and> transport s' = transport s @ [ResponseMessage resp]
         \<and> immediate s' = immediate s @ [initialized_event]
         \<and> transport (run_immediate s') =
             transport s @ [ResponseMessage resp]
               @ map (\<lambda>e. EventMessage (e\<lparr>type := ''event''\<rparr>)) (immediate s)
               @ [EventMessage initialized_event]
         \<and> success resp
         \<and> request_seq resp = seq r
         \<and> command resp = ''initialize''
         \<and> body resp = Some (map (\<lambda>(k, v). (k, JBool v)) capabilities)"
proof -
  have l: "get_property (arguments r) ''linesStartAt1'' =
             Inr (case arguments r of Some (JObj kvs) \<Rightarrow> map_of kvs ''linesStartAt1'' | _ \<Rightarrow> None)"
    using assms(2) by (rule get_property_total)
  have c: "get_property (arguments r) ''columnsStartAt1'' =
             Inr (case arguments r of Some (JObj kvs) \<Rightarrow> map_of kvs ''columnsStartAt1'' | _ \<Rightarrow> None)"
    using assms(2) by (rule get_property_total)
  show ?thesis
    using assms
    by (simp add: dispatchRequest_def dispatch_initialize_def l c Let_def
        initializeRequest_def sendEvent_def Response_new_def sendResponse_unsent
        private_send_transport private_send_other capabilities_body
        run_immediate_def run_callbacks_transport initialized_event_def)
qed

text \<open>C4, amended, at the request of the counterexample.\<close>

theorem C4_initialize_witness:
  "\<exists>s' resp.
     dispatchRequest sample_externals (initialize_request ''path'' True) attached_adapter = Inr s'
   \<and> transport s' = [ResponseMessage resp]
   \<and> immediate s' = [initialized_event]
   \<and> transport (run_immediate s') = [ResponseMessage resp, EventMessage initialized_event]
   \<and> success resp
   \<and> request_seq resp = 1
   \<and> command resp = ''initialize''
   \<and> body resp = Some (map (\<lambda>(k, v). (k, JBool v)) capabilities)"
proof -
  have h1: "request_command (initialize_request ''path'' True) = ''initialize''"
    by (simp add: initialize_request_def)
  have h2: "get_property (arguments (initialize_request ''path'' True)) ''pathFormat''
              = Inr (Some (JStr ''path''))"
    by (simp add: initialize_request_def get_property_def)
  have h3: "listener attached_adapter"
    by (simp add: attached_adapter_def onDidSendMessage_def)
  have t: "transport attached_adapter = []" "immediate attached_adapter = []"
    "seq (initialize_request ''path'' True) = 1"
    by (simp_all add: sample_defs)
  from C4_initialize_response_then_event [OF h1 h2 h3, of sample_externals]
  show ?thesis by (simp add: t)
qed

text \<open>
  C5: for every initialize request whose arguments have a pathFormat other than
  \<^verbatim>\<open>"path"\<close> (a missing one included), the dispatcher fires exactly one message, an
  unsuccessful response to the request, which the listener (if there is one) receives;
  its body holds the property \<^verbatim>\<open>error\<close> and nothing else (no capability), the error
  has the code 2018 and \<^verbatim>\<open>sendTelemetry\<close> set, and no event is scheduled.  The mask
  \<^verbatim>\<open>ErrorDestination.Telemetry\<close> of the library is assumed not to be 0.
\<close>

theorem C5_initialize_wrong_path_format:
  assumes "request_command r = ''initialize''"
    and "get_property (arguments r) ''pathFormat'' = Inr p"
    and "p \<noteq> Some (JStr ''path'')"
    and "ErrorDestination_Telemetry X \<noteq> 0"
  shows "\<exists>s' resp err.
           dispatchRequest X r s = Inr s'
         \<and> fired (console s') = fired (console s) @ [ResponseMessage resp]
         \<and> transport s' = transport s @ (if listener s then [ResponseMessage resp] else [])
         \<and> immediate s' = immediate s
         \<and> \<not> success resp
         \<and> request_seq resp = seq r
         \<and> command resp = ''initialize''
         \<and> message resp = Some ''debug adapter only supports native paths''
         \<and> body resp = Some [(''error'', JObj err)]
         \<and> map_of err ''id'' = Some (JNum 2018)
         \<and> map_of err ''sendTelemetry'' = Some (JBool True)"
proof -
  have l: "get_property (arguments r) ''linesStartAt1'' =
             Inr (case arguments r of Some (JObj kvs) \<Rightarrow> map_of kvs ''linesStartAt1'' | _ \<Rightarrow> None)"
    using assms(2) by (rule get_property_total)
  have c: "get_property (arguments r) ''columnsStartAt1'' =
             Inr (case arguments r of Some (JObj kvs) \<Rightarrow> map_of kvs ''columnsStartAt1'' | _ \<Rightarrow> None)"
    using assms(2) by (rule get_property_total)
  show ?thesis
    using assms
    by (simp add: dispatchRequest_def dispatch_initialize_def l c Let_def
        sendErrorResponse_def error_message_def Response_new_def sendResponse_unsent
        private_send_transport private_send_fired private_send_other
        formatPII_native_paths ErrorMessage_json_def optional_def)
qed

text \<open>C5 at the request with \<^verbatim>\<open>pathFormat: "uri"\<close>, with the library's masks.\<close>

theorem C5_initialize_uri_witness:
  "\<exists>s' resp err.
     dispatchRequest sample_externals (initialize_request ''uri'' True) attached_adapter = Inr s'
   \<and> fired (console s') = [ResponseMessage resp]
   \<and> transport s' = [ResponseMessage resp]
   \<and> immediate s' = []
   \<and> \<not> success resp
   \<and> request_seq resp = 1
   \<and> command resp = ''initialize''
   \<and> message resp = Some ''debug adapter only supports native paths''
   \<and> body resp = Some [(''error'', JObj err)]
   \<and> map_of err ''id'' = Some (JNum 2018)
   \<and> map_of err ''sendTelemetry'' = Some (JBool True)"
proof -
  have h1: "request_command (initialize_request ''uri'' True) = ''initialize''"
    by (simp add: initialize_request_def)
  have h2: "get_property (arguments (initialize_request ''uri'' True)) ''pathFormat''
              = Inr (Some (JStr ''uri''))"
    by (simp add: initialize_request_def get_property_def)
  have h3: "Some (JStr ''uri'') \<noteq> Some (JStr ''path'')"
    by simp
  have h4: "ErrorDestination_Telemetry sample_externals \<noteq> 0"
    by (simp add: sample_externals_def)
  have t: "transport attached_adapter = []" "immediate attached_adapter = []"
    "fired (console attached_adapter) = []" "listener attached_adapter"
    "seq (initialize_request ''uri'' True) = 1"
    by (simp_all add: sample_defs)
  from C5_initialize_wrong_path_format [OF h1 h2 h3 h4, of attached_adapter]
  show ?thesis by (simp add: t)
qed



section \<open>Unknown commands\<close>

text \<open>
  C9: for every request whose command is not in the fixed dispatch set, the dispatcher
  returns normally, the only change of the adapter is the error logged with the
  command, so no message is fired, none reaches the transport and no event is scheduled;
  and a request that follows with any command whose handler only sends the response is
  answered as if the unknown request had not been there.
\<close>

theorem C9_unknown_command_no_message:
  assumes "request_command r \<notin> set dispatch_commands"
  shows "dispatchRequest X r s =
           Inr (s\<lparr>console := console s @ [Error_UnknownRequest (request_command r)]\<rparr>)
       \<and> transport (projr (dispatchRequest X r s)) = transport s
       \<and> fired (console (projr (dispatchRequest X r s))) = fired (console s)
       \<and> immediate (projr (dispatchRequest X r s)) = immediate s
       \<and> (\<forall>q :: Request. request_command q \<in> set sendResponse_commands \<longrightarrow>
             transport (projr (dispatchRequest X q (projr (dispatchRequest X r s)))) =
               transport s @ (if listener s then [ResponseMessage (Response_new q None)] else []))"
proof -
  have 1: "dispatchRequest X r s =
             Inr (s\<lparr>console := console s @ [Error_UnknownRequest (request_command r)]\<rparr>)"
    using assms by (simp add: dispatchRequest_def dispatch_commands_def Let_def)
  have 2: "request_command q \<noteq> ''initialize''"
    if "request_command q \<in> set sendResponse_commands" for q :: Request
    using that by (auto simp: sendResponse_commands_def)
  show ?thesis
    unfolding 1
    by (auto simp: fired_append dispatchRequest_def Let_def 2 Response_new_def
        sendResponse_unsent private_send_transport)
qed

text \<open>
  C9 at the request \<^verbatim>\<open>toggleFormatting\<close>: nothing reaches the transport, and a
  \<^verbatim>\<open>launch\<close> request that follows gets its response.
\<close>

theorem C9_toggleFormatting_witness:
  "transport (projr (dispatchRequest sample_externals toggleFormatting_request attached_adapter)) = []
   \<and> console (projr (dispatchRequest sample_externals toggleFormatting_request attached_adapter))
       = [Log_SettingListener, Error_UnknownRequest ''toggleFormatting'']
   \<and> transport (projr (dispatchRequest sample_externals (launch_request 8)
        (projr (dispatchRequest sample_externals toggleFormatting_request attached_adapter))))
       = [ResponseMessage (Response_new (launch_request 8) None)]"
proof -
  have h: "request_command toggleFormatting_request \<notin> set dispatch_commands"
    by (simp add: toggleFormatting_request_def dispatch_commands_def sendResponse_commands_def)
  have q: "request_command (launch_request 8) \<in> set sendResponse_commands"
    by (simp add: launch_request_def sendResponse_commands_def)
  have t: "transport attached_adapter = []" "listener attached_adapter"
    "console attached_adapter = [Log_SettingListener]"
    "request_command toggleFormatting_request = ''toggleFormatting''"
    by (simp_all add: sample_defs)
  note w = C9_unknown_command_no_message [OF h, of sample_externals attached_adapter]
  from w have a: "transport (projr (dispatchRequest sample_externals toggleFormatting_request
                                      attached_adapter)) = []"
    by (simp add: t)
  from w have b: "console (projr (dispatchRequest sample_externals toggleFormatting_request
                                    attached_adapter))
                    = [Log_SettingListener, Error_UnknownRequest ''toggleFormatting'']"
    by (simp add: t)
  from w [THEN conjunct2, THEN conjunct2, THEN conjunct2, THEN conjunct2, rule_format, OF q]
  have c: "transport (projr (dispatchRequest sample_externals (launch_request 8)
        (projr (dispatchRequest sample_externals toggleFormatting_request attached_adapter))))
       = [ResponseMessage (Response_new (launch_request 8) None)]"
    by (simp add: t)
  from a b c show ?thesis by simp
qed

section \<open>Lines and columns\<close>

text \<open>
  C6: for every line or column value and each of the four combinations of the client's
  and the debugger's origin, converting from the client's numbering to the debugger's
  and back yields the value; the conversion to the client of the source is the
  identity when the two origins agree and a shift by one, up for a client that counts
  from 1 and down for one that counts from 0, when they differ.
\<close>

theorem C6_coordinate_round_trip:
  "convertDebuggerLineToClient s (convertClientLineToDebugger s L) = L
   \<and> convertDebuggerColumnToClient s (convertClientColumnToDebugger s L) = L
   \<and> convertDebuggerLineToClient s L =
       (if debuggerLinesStartAt1 s = clientLinesStartAt1 s then L
        else if clientLinesStartAt1 s then L + 1 else L - 1)
   \<and> convertDebuggerColumnToClient s L =
       (if debuggerColumnsStartAt1 s = clientColumnsStartAt1 s then L
        else if clientColumnsStartAt1 s then L + 1 else L - 1)"
  by (simp add: convertDebuggerLineToClient_def convertClientLineToDebugger_def
      convertDebuggerColumnToClient_def convertClientColumnToDebugger_def)

section \<open>Formatting a variable\<close>

lemma map_of_update: "map_of (AList.update k v al) k' = (if k' = k then Some v else map_of al k')"
  by (simp add: update_conv')

















lemma digit_value_digit_char: "d < 16 \<Longrightarrow> digit_value (digit_char d) = Some d"
proof -
  assume "d < 16"
  then have "d = 0 \<or> d = 1 \<or> d = 2 \<or> d = 3 \<or> d = 4 \<or> d = 5 \<or> d = 6 \<or> d = 7
      \<or> d = 8 \<or> d = 9 \<or> d = 10 \<or> d = 11 \<or> d = 12 \<or> d = 13 \<or> d = 14 \<or> d = 15"
    by arith
  then show ?thesis
    by (elim disjE) (simp_all add: digit_char_def digit_value_def)
qed

lemma parse_digits_snoc:
  "parse_digits radix acc (xs @ [c]) =
     (case parse_digits radix acc xs of
        None \<Rightarrow> None
      | Some m \<Rightarrow>
          (case digit_value c of
             None \<Rightarrow> None
           | Some d \<Rightarrow> if d < radix then Some (m * radix + d) else None))"
  by (induction xs arbitrary: acc) (auto split: option.splits)

lemma parse_digits_digits:
  "2 \<le> radix \<Longrightarrow> radix \<le> 16 \<Longrightarrow> parse_digits radix 0 (digits radix n) = Some n"
proof (induction radix n rule: digits.induct)
  case (1 radix n)
  show ?case
  proof (cases "n < radix")
    case True
    with "1.prems" have "digit_value (digit_char n) = Some n"
      by (intro digit_value_digit_char) simp
    with True "1.prems" show ?thesis
      by (subst digits.simps) simp
  next
    case False
    from "1.prems" have dv: "digit_value (digit_char (n mod radix)) = Some (n mod radix)"
      by (intro digit_value_digit_char) (simp add: less_le_trans [OF mod_less_divisor])
    have ih: "parse_digits radix 0 (digits radix (n div radix)) = Some (n div radix)"
      using "1.IH" "1.prems" False by simp
    have "digits radix n = digits radix (n div radix) @ [digit_char (n mod radix)]"
      using "1.prems" False by (subst digits.simps) simp
    then show ?thesis
      using "1.prems" by (simp add: parse_digits_snoc ih dv)
  qed
qed

lemma digits_nonempty: "2 \<le> radix \<Longrightarrow> radix \<le> 16 \<Longrightarrow> digits radix n \<noteq> []"
  by (subst digits.simps) simp

lemma digit_char_inj: "d < 16 \<Longrightarrow> e < 16 \<Longrightarrow> digit_char d = digit_char e \<Longrightarrow> d = e"
  by (metis digit_value_digit_char option.inject)

lemma digit_char_not_minus: "d < 16 \<Longrightarrow> digit_char d \<noteq> CHR ''-''"
proof
  assume "d < 16" and m: "digit_char d = CHR ''-''"
  then have "digit_value (digit_char d) = Some d" by (intro digit_value_digit_char)
  then have "digit_value (CHR ''-'') = Some d" unfolding m .
  then show False by (simp add: digit_value_def)
qed

lemma hd_digits:
  "2 \<le> radix \<Longrightarrow> radix \<le> 16 \<Longrightarrow>
   \<exists>d. hd (digits radix n) = digit_char d \<and> d < 16 \<and> (d = 0 \<longrightarrow> n = 0)"
proof (induction radix n rule: digits.induct)
  case (1 radix n)
  show ?case
  proof (cases "n < radix")
    case True
    have "digits radix n = [digit_char n]"
      using "1.prems" True by (subst digits.simps) simp
    with True "1.prems" show ?thesis by auto
  next
    case False
    have eq: "digits radix n = digits radix (n div radix) @ [digit_char (n mod radix)]"
      using "1.prems" False by (subst digits.simps) simp
    from "1.IH" "1.prems" False obtain d where
      d: "hd (digits radix (n div radix)) = digit_char d" "d < 16" "d = 0 \<longrightarrow> n div radix = 0"
      by auto
    have pos: "n div radix \<noteq> 0" using False "1.prems" by (simp add: div_eq_0_iff)
    from d pos have "d \<noteq> 0" by auto
    moreover have "hd (digits radix n) = digit_char d"
      using eq d(1) digits_nonempty [OF "1.prems", of "n div radix"] by simp
    ultimately show ?thesis using d(2) by auto
  qed
qed

lemma digits_zero: "2 \<le> radix \<Longrightarrow> radix \<le> 16 \<Longrightarrow> digits radix 0 = [digit_char 0]"
  by (subst digits.simps) simp

lemma parse_nat_digits:
  assumes "2 \<le> radix" "radix \<le> 16"
  shows "parse_nat radix (digits radix n) = Some n"
proof -
  from hd_digits [OF assms, of n] obtain d where
    d: "hd (digits radix n) = digit_char d" "d < 16" "d = 0 \<longrightarrow> n = 0" by auto
  have zero: "digit_char 0 = CHR ''0''" by (simp add: digit_char_def)
  have "tl (digits radix n) = []" if "hd (digits radix n) = CHR ''0''"
  proof -
    from that d(1) zero have "digit_char d = digit_char 0" by simp
    with d(2) have "d = 0" by (intro digit_char_inj) simp_all
    with d(3) have "n = 0" by simp
    then show ?thesis using digits_zero [OF assms] by simp
  qed
  then show ?thesis
    using digits_nonempty [OF assms, of n] parse_digits_digits [OF assms, of n]
    by (auto simp: parse_nat_def)
qed

lemma parse_int_int_toString:
  assumes "2 \<le> radix" "radix \<le> 16"
  shows "parse_int radix (int_toString radix x) = Some x"
proof (cases "x < 0")
  case True
  then show ?thesis
    using parse_nat_digits [OF assms, of "nat (- x)"]
    by (simp add: parse_int_def int_toString_def)
next
  case False
  from hd_digits [OF assms, of "nat x"] obtain d where
    d: "hd (digits radix (nat x)) = digit_char d" "d < 16" by auto
  then have "hd (digits radix (nat x)) \<noteq> CHR ''-''"
    using digit_char_not_minus [of d] by simp
  with False show ?thesis
    using parse_nat_digits [OF assms, of "nat x"]
    by (simp add: parse_int_def int_toString_def)
qed

text \<open>
  C7, as the claim states it, fails.  The number \<^verbatim>\<open>Infinity\<close> is no integer, and the
  formatter gives it the type \<^verbatim>\<open>integer\<close> and the value \<^verbatim>\<open>Infinity\<close>, because
  \<^verbatim>\<open>Math.round(Infinity) === Infinity\<close>.  The integer \<open>10^21\<close> is rendered by
  \<^verbatim>\<open>toString\<close> as \<^verbatim>\<open>1e+21\<close>, which is not its decimal numeral.
\<close>

theorem C7_infinity_counterexample:
  "map_of (fst (projr (convertFromRuntime sample_externals 0 (adapter_with ''x'' (Number PosInfinity)))))
      ''type'' = Some (JStr ''integer'')
   \<and> map_of (fst (projr (convertFromRuntime sample_externals 0 (adapter_with ''x'' (Number PosInfinity)))))
      ''value'' = Some (JStr ''Infinity'')
   \<and> map_of (fst (projr (convertFromRuntime sample_externals 0
                           (adapter_with ''x'' (Number (Finite (10 ^ 21)))))))
      ''value'' = Some (JStr ''1e+21'')
   \<and> parse_int 10 ''1e+21'' \<noteq> Some (10 ^ 21)"
  by (simp add: convertFromRuntime_def render_def memory_reference_def Let_def map_of_update
      formatNumber_def toString_def integer_toString_def Math_round_same_def
      RuntimeVariable_memory_def RuntimeVariable_new_def sample_defs
      parse_int_def parse_nat_def digit_value_def)

text \<open>
  C7, amended: for every variable in the heap whose name does not contain \<^verbatim>\<open>lazy\<close>,
  \<^verbatim>\<open>convertFromRuntime\<close> returns, and for a scalar value other than an infinity the
  result has: for a finite number that equals its rounding, the type \<^verbatim>\<open>integer\<close> and
  as value the text that \<^verbatim>\<open>toString(10)\<close> gives (after \<^verbatim>\<open>0x\<close> the text that
  \<^verbatim>\<open>toString(16)\<close> gives, when \<^verbatim>\<open>_valuesInHex\<close> is set), which for a number of
  magnitude below \<open>2^53\<close> is its numeral in the radix: digits with no leading zero, after
  a minus sign for a negative number; for any other finite number and for \<^verbatim>\<open>NaN\<close>,
  the value that \<^verbatim>\<open>toString()\<close> gives and the type \<^verbatim>\<open>float\<close>; for a string, the
  string between two double quotes, unchanged; for a boolean, \<^verbatim>\<open>true\<close> or
  \<^verbatim>\<open>false\<close>.
\<close>

theorem C7_scalar_rendering:
  assumes "a < length (heap s)"
    and "\<not> indexOf_found ''lazy'' (name (heap s ! a))"
  shows "\<exists>dap s'. convertFromRuntime X a s = Inr (dap, s') \<and>
     (case private_value (heap s ! a) of
        Number v \<Rightarrow>
          (case v of
             Finite x \<Rightarrow>
               if of_int (round x) = x
               then map_of dap ''value'' =
                      Some (JStr (if valuesInHex s then ''0x'' @ integer_toString X 16 (round x)
                                  else integer_toString X 10 (round x)))
                    \<and> map_of dap ''type'' = Some (JStr ''integer'')
                    \<and> (if \<bar>x\<bar> < 2 ^ 53
                        then parse_int 10 (integer_toString X 10 (round x)) = Some (round x)
                           \<and> parse_int 16 (integer_toString X 16 (round x)) = Some (round x)
                        else integer_toString X 10 (round x) = Number_toString X x 10
                           \<and> integer_toString X 16 (round x) = Number_toString X x 16)
               else map_of dap ''value'' = Some (JStr (Number_toString X x 10))
                    \<and> map_of dap ''type'' = Some (JStr ''float'')
           | NaN \<Rightarrow> map_of dap ''value'' = Some (JStr ''NaN'')
                    \<and> map_of dap ''type'' = Some (JStr ''float'')
           | PosInfinity \<Rightarrow> True
           | NegInfinity \<Rightarrow> True)
      | String str \<Rightarrow> map_of dap ''value'' = Some (JStr ([CHR 0x22] @ str @ [CHR 0x22]))
      | Boolean b \<Rightarrow> map_of dap ''value'' = Some (JStr (if b then ''true'' else ''false''))
      | Array vs \<Rightarrow> True)"
proof -
  have safe: "parse_int 10 (integer_toString X 10 (round x)) = Some (round x)
            \<and> parse_int 16 (integer_toString X 16 (round x)) = Some (round x)"
    if "\<bar>x\<bar> < 2 ^ 53" and "of_int (round x) = x" for x :: rat
  proof -
    from that have "\<bar>(of_int (round x) :: rat)\<bar> < of_int (2 ^ 53)" by simp
    then have "\<bar>round x\<bar> < 2 ^ 53"
      unfolding of_int_abs [symmetric] of_int_less_iff .
    then show ?thesis
      by (simp add: integer_toString_def parse_int_int_toString)
  qed
  have big: "integer_toString X radix (round x) = Number_toString X x radix"
    if "\<not> \<bar>x\<bar> < 2 ^ 53" and "of_int (round x) = x" for x :: rat and radix
  proof -
    from that have "\<not> \<bar>(of_int (round x) :: rat)\<bar> < of_int (2 ^ 53)" by simp
    then have "\<not> \<bar>round x\<bar> < 2 ^ 53"
      unfolding of_int_abs [symmetric] of_int_less_iff .
    then show ?thesis
      using that(2) by (simp add: integer_toString_def)
  qed
  show ?thesis
  proof (cases "private_value (heap s ! a)")
    case (Number v)
    show ?thesis
    proof (cases v)
      case (Finite x)
      show ?thesis
      proof (cases "of_int (round x) = x")
        case True
        with assms Number Finite safe [of x] big [of x] show ?thesis
          by (simp add: convertFromRuntime_def render_def memory_reference_def Let_def
              map_of_update formatNumber_def toString_def Math_round_same_def
              RuntimeVariable_memory_def split: option.splits prod.splits)
      next
        case False
        with assms Number Finite show ?thesis
          by (simp add: convertFromRuntime_def render_def memory_reference_def Let_def
              map_of_update formatNumber_def toString_def Math_round_same_def
              RuntimeVariable_memory_def split: option.splits prod.splits)
      qed
    next
      case NaN
      with assms Number show ?thesis
        by (simp add: convertFromRuntime_def render_def memory_reference_def Let_def
            map_of_update toString_def Math_round_same_def
            RuntimeVariable_memory_def split: option.splits prod.splits)
    next
      case PosInfinity
      with assms Number show ?thesis
        by (simp add: convertFromRuntime_def render_def memory_reference_def Let_def
            RuntimeVariable_memory_def split: option.splits prod.splits)
    next
      case NegInfinity
      with assms Number show ?thesis
        by (simp add: convertFromRuntime_def render_def memory_reference_def Let_def
            RuntimeVariable_memory_def split: option.splits prod.splits)
    qed
  next
    case (String str)
    with assms show ?thesis
      by (auto simp: convertFromRuntime_def render_def memory_reference_def Let_def
          map_of_update RuntimeVariable_memory_def assign_reference_def Handles_create_def
          split: option.splits prod.splits)
  next
    case (Boolean b)
    with assms show ?thesis
      by (simp add: convertFromRuntime_def render_def memory_reference_def Let_def
          map_of_update RuntimeVariable_memory_def split: option.splits prod.splits)
  next
    case (Array vs)
    with assms show ?thesis
      by (simp add: convertFromRuntime_def render_def memory_reference_def Let_def
          split: option.splits prod.splits)
  qed
qed

text \<open>C7, amended, at the variable \<^verbatim>\<open>local_2\<close> with value 2: the value is \<^verbatim>\<open>"2"\<close>, an integer.\<close>

theorem C7_local_2_witness:
  "\<exists>dap s'. convertFromRuntime sample_externals 0 (adapter_with ''local_2'' (Number (Finite 2)))
               = Inr (dap, s')
     \<and> map_of dap ''value'' = Some (JStr ''2'')
     \<and> map_of dap ''type'' = Some (JStr ''integer'')
     \<and> parse_int 10 ''2'' = Some 2"
proof -
  let ?s = "adapter_with ''local_2'' (Number (Finite 2))"
  have v: "heap ?s ! 0 = RuntimeVariable_new ''local_2'' (Number (Finite 2))"
    "length (heap ?s) = 1" "valuesInHex ?s = False"
    by (simp_all add: sample_defs)
  have h1: "0 < length (heap ?s)"
    by (simp add: v)
  have h2: "\<not> indexOf_found ''lazy'' (name (heap ?s ! 0))"
    by (simp add: v RuntimeVariable_new_def)
  have d: "integer_toString sample_externals 10 2 = ''2''"
    by (simp add: integer_toString_def int_toString_def digits.simps digit_char_def)
  from C7_scalar_rendering [OF h1 h2, of sample_externals]
  show ?thesis by (auto simp: v RuntimeVariable_new_def d)
qed



end
